theory Spec2Isabelle
  imports Main
begin

section \<open>pytori/utilities.py\<close>

text \<open>
  \<^verbatim>\<open>
  def find_duplicates(x: Iterable) -> list:
      dups = []
      seen = set()
      for item in x:
          if item not in seen:
              seen.add(item)
          else:
              dups.append(item)
      return dups
  \<close>
  The loop carries the two locals \<open>dups\<close> and \<open>seen\<close>. Membership in a Python set is
  decided by \<open>__hash__\<close> and \<open>__eq__\<close>; for elements whose hash agrees with their
  equality (integers, strings, and the scheme elements below, whose hash and equality
  both range over all slots) it is membership up to value equality, which is HOL
  equality on the modelled values.
\<close>

fun find_duplicates_loop :: "'a list \<Rightarrow> 'a list \<Rightarrow> 'a set \<Rightarrow> 'a list" where
  "find_duplicates_loop [] dups seen = dups"
| "find_duplicates_loop (item # x) dups seen =
     (if item \<notin> seen
      then find_duplicates_loop x dups (insert item seen)
      else find_duplicates_loop x (dups @ [item]) seen)"

definition find_duplicates :: "'a list \<Rightarrow> 'a list" where
  "find_duplicates x = find_duplicates_loop x [] {}"

section \<open>pytori/elements.py\<close>

subsection \<open>Exceptions\<close>

text \<open>
  Every \<^verbatim>\<open>raise\<close> of the source is a value: \<open>Inl\<close> of the exception, carrying its
  message. \<open>KeyError\<close> and \<open>TypeError\<close> are the built-in exceptions of a failed
  subscript \<^verbatim>\<open>d[k]\<close> and of \<^verbatim>\<open>tuple(None)\<close>.
\<close>

datatype exn =
    TORISchemeError string
  | TORIParseError string
  | KeyError string
  | TypeError string

subsection \<open>Scheme elements\<close>

text \<open>
  The element classes, with the attribute types of the constructors' annotations
  (\<^verbatim>\<open>name: str\<close>, \<^verbatim>\<open>description: str\<close>, \<^verbatim>\<open>group: TagGroup\<close>, \<dots>). The fields are
  the \<^verbatim>\<open>__slots__\<close> of each class, in their order, prefixed (\<open>tg_\<close>, \<open>t_\<close>, \<open>r_\<close>)
  because \<open>name\<close>, \<open>description\<close> and \<open>tags\<close> occur in several classes.

  \<^verbatim>\<open>SchemeElement.__eq__\<close> compares all slots of two instances of the same class and
  \<^verbatim>\<open>__hash__\<close> hashes the class name with the tuple of all slots: equality of records.
\<close>

record TagGroup =
  tg_name :: string
  tg_description :: string

record Tag =
  t_name :: string
  t_description :: string
  t_group :: TagGroup

record Reference =
  r_title :: string
  r_author :: "string list"
  r_tags :: "Tag list"
  r_url :: "string option"

definition TagGroup_init :: "string \<Rightarrow> string \<Rightarrow> TagGroup" where
  "TagGroup_init name description = \<lparr>tg_name = name, tg_description = description\<rparr>"

definition DEFAULT_TAG_GROUP :: TagGroup where
  "DEFAULT_TAG_GROUP = TagGroup_init ''Default'' ''Default Tag Group''"

text \<open>
  \<^verbatim>\<open>def __init__(self, name, description, group=DEFAULT_TAG_GROUP)\<close>: the argument
  \<open>tag_group\<close> (the source's \<open>group\<close>) is \<open>None\<close> when the caller leaves it out.
\<close>

definition Tag_init :: "string \<Rightarrow> string \<Rightarrow> TagGroup option \<Rightarrow> Tag" where
  "Tag_init name description tag_group =
     \<lparr>t_name = name, t_description = description,
      t_group = (case tag_group of None \<Rightarrow> DEFAULT_TAG_GROUP | Some g \<Rightarrow> g)\<rparr>"

text \<open>
  \<^verbatim>\<open>
  def __init__(self, title, author: Union[str, Iterable[str]], url: Optional[str] = None,
               tags: Iterable[Tag] = None):
      self.title = title
      self.author = (author,) if isinstance(author, str) else tuple(author)
      self.url = url
      self.tags = tuple(tags)
  \<close>
  The argument \<open>tags\<close> is \<open>None\<close> when the caller leaves it out or passes Python's
  \<open>None\<close>; \<^verbatim>\<open>tuple(None)\<close> raises \<open>TypeError\<close>.
\<close>

datatype author_arg = AuthorStr string | AuthorIter "string list"

definition Reference_init ::
  "string \<Rightarrow> author_arg \<Rightarrow> string option \<Rightarrow> Tag list option \<Rightarrow> exn + Reference" where
  "Reference_init title author url tags =
     (let author' = (case author of AuthorStr a \<Rightarrow> [a] | AuthorIter as \<Rightarrow> as) in
      case tags of
        None \<Rightarrow> Inl (TypeError '''NoneType' object is not iterable'')
      | Some ts \<Rightarrow> Inr \<lparr>r_title = title, r_author = author', r_tags = ts, r_url = url\<rparr>)"

text \<open>
  \<^verbatim>\<open>
  def add_tag(self, tag: Tag):
      if tag not in self.tags:
          self.tags = self.tags + (tag,)
  \<close>
\<close>

definition add_tag :: "Reference \<Rightarrow> Tag \<Rightarrow> Reference" where
  "add_tag self tag =
     (if tag \<notin> set (r_tags self) then self\<lparr>r_tags := r_tags self @ [tag]\<rparr> else self)"

text \<open>
  \<^verbatim>\<open>__repr__\<close>: \<^verbatim>\<open>'{}({})'.format(self.__class__.__name__, getattr(self, self.__key_attr__))\<close>.
  \<^verbatim>\<open>'{}'.format(x)\<close> and \<^verbatim>\<open>str(x)\<close> of an element are its \<^verbatim>\<open>__repr__\<close>, and of a list
  the \<^verbatim>\<open>repr\<close>s of its elements, separated by a comma and a space, in brackets.
\<close>

definition TagGroup_repr :: "TagGroup \<Rightarrow> string" where
  "TagGroup_repr self = ''TagGroup('' @ tg_name self @ '')''"

definition Tag_repr :: "Tag \<Rightarrow> string" where
  "Tag_repr self = ''Tag('' @ t_name self @ '')''"

definition Reference_repr :: "Reference \<Rightarrow> string" where
  "Reference_repr self = ''Reference('' @ r_title self @ '')''"

fun join :: "string \<Rightarrow> string list \<Rightarrow> string" where
  "join sep [] = []"
| "join sep [s] = s"
| "join sep (s # t # ts) = s @ sep @ join sep (t # ts)"

definition list_str :: "string list \<Rightarrow> string" where
  "list_str reprs = ''['' @ join '', '' reprs @ '']''"

subsection \<open>The catalog\<close>

text \<open>
  \<^verbatim>\<open>__slots__ = ('tag_groups', 'tags', 'references', 'keys', '_errors')\<close>. The tuples are
  lists; \<open>keys\<close> is the dictionary from element class to the tuple of key attributes, in
  insertion order; \<open>errors\<close> is \<^verbatim>\<open>_errors\<close>.
\<close>

datatype element_class = TagGroup_class | Tag_class | Reference_class

record TORI =
  tag_groups :: "TagGroup list"
  tags :: "Tag list"
  references :: "Reference list"
  keys :: "(element_class \<times> string list) list"
  errors :: "string list"

definition set_keys :: "TORI \<Rightarrow> TORI" where
  "set_keys self =
     self\<lparr>keys := [(TagGroup_class, map tg_name (tag_groups self)),
                    (Tag_class, map t_name (tags self)),
                    (Reference_class, map r_title (references self))]\<rparr>"

definition TORI_init :: "TagGroup list \<Rightarrow> Tag list \<Rightarrow> Reference list \<Rightarrow> TORI" where
  "TORI_init tgs ts rs =
     set_keys \<lparr>tag_groups = tgs, tags = ts, references = rs, keys = [], errors = []\<rparr>"

definition clear_errors :: "TORI \<Rightarrow> TORI" where
  "clear_errors self = self\<lparr>errors := []\<rparr>"

text \<open>
  \<^verbatim>\<open>
  def _raise_error(self, message: str, collect: bool = False):
      if collect:
          self._errors += (message,)
      else:
          raise TORISchemeError(message)
  \<close>
  A method that mutates the catalog returns the catalog; one that raises returns the
  exception.
\<close>

definition raise_error :: "TORI \<Rightarrow> string \<Rightarrow> bool \<Rightarrow> exn + TORI" where
  "raise_error self message collect =
     (if collect then Inr (self\<lparr>errors := errors self @ [message]\<rparr>)
      else Inl (TORISchemeError message))"

text \<open>
  \<^verbatim>\<open>
  def validate_tag_groups(self, collect_errors: bool = False) -> bool:
      dups = utilities.find_duplicates(self.tag_groups)
      if dups:
          self._raise_error('Tag Groups must be unique, found duplicates: {}'.format(dups),
                            collect=collect_errors)
          return False
      return True
  \<close>
\<close>

definition validate_tag_groups :: "TORI \<Rightarrow> bool \<Rightarrow> exn + bool \<times> TORI" where
  "validate_tag_groups self collect_errors =
     (let dups = find_duplicates (tag_groups self) in
      if dups \<noteq> [] then
        (case raise_error self
                (''Tag Groups must be unique, found duplicates: '' @ list_str (map TagGroup_repr dups))
                collect_errors of
           Inl e \<Rightarrow> Inl e
         | Inr self' \<Rightarrow> Inr (False, self'))
      else Inr (True, self))"

text \<open>
  \<^verbatim>\<open>
  def validate_tags(self, collect_errors: bool = False) -> bool:
      valid = True
      for t in self.tags:
          if not t.name:
              self._raise_error('Tag missing name: {}'.format(t))
              valid = False
          if not t.description:
              self._raise_error('Tag missing description: {}'.format(t))
              valid = False
      dups = utilities.find_duplicates(self.tags)
      if dups:
          self._raise_error('Tags must be unique, found duplicates: {}'.format(dups),
                            collect=collect_errors)
          valid = False
      return valid
  \<close>
  The two calls in the loop leave \<open>collect\<close> at its default, \<open>False\<close>.
\<close>

fun validate_tags_loop :: "Tag list \<Rightarrow> bool \<Rightarrow> TORI \<Rightarrow> exn + bool \<times> TORI" where
  "validate_tags_loop [] valid self = Inr (valid, self)"
| "validate_tags_loop (t # ts) valid self =
     (case (if t_name t = [] then
              (case raise_error self (''Tag missing name: '' @ Tag_repr t) False of
                 Inl e \<Rightarrow> Inl e
               | Inr self' \<Rightarrow> Inr (False, self'))
            else Inr (valid, self)) of
        Inl e \<Rightarrow> Inl e
      | Inr (valid1, self1) \<Rightarrow>
          (case (if t_description t = [] then
                   (case raise_error self1 (''Tag missing description: '' @ Tag_repr t) False of
                      Inl e \<Rightarrow> Inl e
                    | Inr self' \<Rightarrow> Inr (False, self'))
                 else Inr (valid1, self1)) of
             Inl e \<Rightarrow> Inl e
           | Inr (valid2, self2) \<Rightarrow> validate_tags_loop ts valid2 self2))"

definition validate_tags :: "TORI \<Rightarrow> bool \<Rightarrow> exn + bool \<times> TORI" where
  "validate_tags self collect_errors =
     (case validate_tags_loop (tags self) True self of
        Inl e \<Rightarrow> Inl e
      | Inr (valid, self1) \<Rightarrow>
          (let dups = find_duplicates (tags self1) in
           if dups \<noteq> [] then
             (case raise_error self1
                     (''Tags must be unique, found duplicates: '' @ list_str (map Tag_repr dups))
                     collect_errors of
                Inl e \<Rightarrow> Inl e
              | Inr self2 \<Rightarrow> Inr (False, self2))
           else Inr (valid, self1)))"

text \<open>
  \<^verbatim>\<open>validate_references\<close> is the same method over \<^verbatim>\<open>self.references\<close>, with the rules
  \<^verbatim>\<open>if not r.title\<close> and \<^verbatim>\<open>if not r.author\<close> (an empty tuple of authors).
\<close>

fun validate_references_loop :: "Reference list \<Rightarrow> bool \<Rightarrow> TORI \<Rightarrow> exn + bool \<times> TORI" where
  "validate_references_loop [] valid self = Inr (valid, self)"
| "validate_references_loop (r # rs) valid self =
     (case (if r_title r = [] then
              (case raise_error self (''Reference missing title: '' @ Reference_repr r) False of
                 Inl e \<Rightarrow> Inl e
               | Inr self' \<Rightarrow> Inr (False, self'))
            else Inr (valid, self)) of
        Inl e \<Rightarrow> Inl e
      | Inr (valid1, self1) \<Rightarrow>
          (case (if r_author r = [] then
                   (case raise_error self1 (''Reference missing author: '' @ Reference_repr r) False of
                      Inl e \<Rightarrow> Inl e
                    | Inr self' \<Rightarrow> Inr (False, self'))
                 else Inr (valid1, self1)) of
             Inl e \<Rightarrow> Inl e
           | Inr (valid2, self2) \<Rightarrow> validate_references_loop rs valid2 self2))"

definition validate_references :: "TORI \<Rightarrow> bool \<Rightarrow> exn + bool \<times> TORI" where
  "validate_references self collect_errors =
     (case validate_references_loop (references self) True self of
        Inl e \<Rightarrow> Inl e
      | Inr (valid, self1) \<Rightarrow>
          (let dups = find_duplicates (references self1) in
           if dups \<noteq> [] then
             (case raise_error self1
                     (''References must be unique, found duplicates: '' @ list_str (map Reference_repr dups))
                     collect_errors of
                Inl e \<Rightarrow> Inl e
              | Inr self2 \<Rightarrow> Inr (False, self2))
           else Inr (valid, self1)))"

text \<open>
  \<^verbatim>\<open>
  def validate(self, collect_errors: bool = False):
      self._clear_errors()
      valid_tag_groups = self.validate_tag_groups(collect_errors=collect_errors)
      valid_tags = self.validate_tags(collect_errors=collect_errors)
      valid_references = self.validate_references(collect_errors=collect_errors)
      valid = all([valid_tag_groups, valid_tags, valid_references])
      if collect_errors:
          return self._errors
      return valid
  \<close>
  The method returns a \<open>bool\<close> or the tuple of collected messages.
\<close>

datatype validate_result = Valid bool | Errors "string list"

definition validate :: "TORI \<Rightarrow> bool \<Rightarrow> exn + validate_result \<times> TORI" where
  "validate self collect_errors =
     (case validate_tag_groups (clear_errors self) collect_errors of
        Inl e \<Rightarrow> Inl e
      | Inr (valid_tag_groups, self1) \<Rightarrow>
     (case validate_tags self1 collect_errors of
        Inl e \<Rightarrow> Inl e
      | Inr (valid_tags, self2) \<Rightarrow>
     (case validate_references self2 collect_errors of
        Inl e \<Rightarrow> Inl e
      | Inr (valid_references, self3) \<Rightarrow>
          (let valid = (valid_tag_groups \<and> valid_tags \<and> valid_references) in
           if collect_errors then Inr (Errors (errors self3), self3)
           else Inr (Valid valid, self3)))))"

section \<open>pytori/parse.py\<close>

subsection \<open>The input mapping\<close>

text \<open>
  \<^verbatim>\<open>load_dict\<close> receives what the YAML or TOML reader returns: a dictionary with string
  keys. The loader itself checks the keys that are present and the shape of the
  containers, so the model keeps both free:

  \<^item> \<open>tori_dict\<close> is the top-level dictionary, as the list of its entries in insertion
    order (the keys of a dictionary are distinct), from a key to any object \<open>pyobj\<close>: a
    list of items, or something that is not a list;
  \<^item> an \<open>item\<close> of a list is a dictionary, or something that is not one (a string,
    \<open>None\<close>);
  \<^item> an \<open>element_dict\<close> is the dictionary of one element. Each key of the scheme is
    absent (\<open>None\<close>) or present with a value of the type the element constructors
    are annotated with: \<open>str\<close> for \<open>name\<close>, \<open>description\<close>, \<open>group\<close>, \<open>title\<close>;
    \<open>str\<close> or a list of \<open>str\<close> for \<open>author\<close>; a list of \<open>str\<close> for \<open>tags\<close>;
    \<open>str\<close> or Python's \<open>None\<close> for \<open>url\<close>. Keys outside the scheme are not modelled:
    the loader never reads them.
\<close>

record element_dict =
  k_name :: "string option"
  k_description :: "string option"
  k_group :: "string option"
  k_title :: "string option"
  k_author :: "author_arg option"
  k_tags :: "string list option"
  k_url :: "string option option"

datatype item = Dict element_dict | StrItem string | NoneItem

datatype pyobj = ListObj "item list" | ItemObj item

type_synonym tori_dict = "(string \<times> pyobj) list"

text \<open>\<^verbatim>\<open>key in d\<close> and \<^verbatim>\<open>d[key]\<close> on an element dictionary.\<close>

definition contains :: "element_dict \<Rightarrow> string \<Rightarrow> bool" where
  "contains d key =
     (if key = ''name'' then k_name d \<noteq> None
      else if key = ''description'' then k_description d \<noteq> None
      else if key = ''group'' then k_group d \<noteq> None
      else if key = ''title'' then k_title d \<noteq> None
      else if key = ''author'' then k_author d \<noteq> None
      else if key = ''tags'' then k_tags d \<noteq> None
      else if key = ''url'' then k_url d \<noteq> None
      else False)"

definition getitem :: "(element_dict \<Rightarrow> 'v option) \<Rightarrow> string \<Rightarrow> element_dict \<Rightarrow> exn + 'v" where
  "getitem field key d = (case field d of None \<Rightarrow> Inl (KeyError key) | Some v \<Rightarrow> Inr v)"

text \<open>\<^verbatim>\<open>type(x)\<close> and \<^verbatim>\<open>x\<close> as \<^verbatim>\<open>'{}'.format\<close> prints them in the loader's messages.\<close>

fun item_type_str :: "item \<Rightarrow> string" where
  "item_type_str (Dict d) = ''<class 'dict'>''"
| "item_type_str (StrItem s) = ''<class 'str'>''"
| "item_type_str NoneItem = ''<class 'NoneType'>''"

fun type_str :: "pyobj \<Rightarrow> string" where
  "type_str (ListObj l) = ''<class 'list'>''"
| "type_str (ItemObj i) = item_type_str i"

text \<open>
  \<^verbatim>\<open>str.lower\<close>, on ASCII letters. The loader only asks whether the lower case of a key
  is one of \<open>tag_groups\<close>, \<open>tags\<close>, \<open>references\<close>, and no character outside ASCII has
  one of their letters as its lower case.
\<close>

definition lower_char :: "char \<Rightarrow> char" where
  "lower_char c =
     (case map_of (zip ''ABCDEFGHIJKLMNOPQRSTUVWXYZ'' ''abcdefghijklmnopqrstuvwxyz'') c of
        None \<Rightarrow> c
      | Some l \<Rightarrow> l)"

definition lower :: "string \<Rightarrow> string" where
  "lower s = map lower_char s"

subsection \<open>The element classes' slots\<close>

definition TagGroup_slots :: "string list" where
  "TagGroup_slots = [''name'', ''description'']"

definition Tag_slots :: "string list" where
  "Tag_slots = [''name'', ''description'', ''group'']"

definition Reference_required_slots :: "string list" where
  "Reference_required_slots = [''title'', ''author'', ''tags'']"

definition Reference_optional_slots :: "string list" where
  "Reference_optional_slots = [''url'']"

definition Reference_slots :: "string list" where
  "Reference_slots = Reference_required_slots @ Reference_optional_slots"

subsection \<open>load_dict\<close>

text \<open>
  \<^verbatim>\<open>
  key_map = {k.lower(): k for k in tori_dict.keys()}
  for k in [TORIDictKeys.TagGroups, TORIDictKeys.Tags, TORIDictKeys.References]:
      if k not in key_map:
          raise TORIParseError('Dict missing top-level key: {}'.format(k))
  \<close>
  In the comprehension a later key replaces an earlier one with the same lower case.
\<close>

definition key_map :: "tori_dict \<Rightarrow> (string \<rightharpoonup> string)" where
  "key_map tori_dict = fold (\<lambda>k m. m(lower k \<mapsto> k)) (map fst tori_dict) Map.empty"

fun check_top_level :: "(string \<rightharpoonup> string) \<Rightarrow> string list \<Rightarrow> exn + unit" where
  "check_top_level km [] = Inr ()"
| "check_top_level km (k # ks) =
     (if km k = None then Inl (TORIParseError (''Dict missing top-level key: '' @ k))
      else check_top_level km ks)"

text \<open>\<^verbatim>\<open>tori_dict[key_map[k]]\<close>: both subscripts raise \<open>KeyError\<close> on a missing key.\<close>

definition top_level_item :: "tori_dict \<Rightarrow> string \<Rightarrow> exn + pyobj" where
  "top_level_item tori_dict k =
     (case key_map tori_dict k of
        None \<Rightarrow> Inl (KeyError k)
      | Some k' \<Rightarrow> (case map_of tori_dict k' of None \<Rightarrow> Inl (KeyError k') | Some v \<Rightarrow> Inr v))"

text \<open>
  \<^verbatim>\<open>
  for name, l in zip(('Tag Groups', 'Tags', 'References'),
                     (tag_group_dicts, tag_dicts, reference_dicts)):
      if not isinstance(l, list):
          raise TORIParseError('{} must be passed as a list, not type: {}'
                               .format(name, type(tag_group_dicts)))
      for element in l:
          if not isinstance(element, dict):
              raise TORIParseError('{} element must be passed as a dict, not type: {}. '
                                   'Object given: {}'.format(name, type(element), element))
  \<close>
  \<open>check_list\<close> is one round of the outer loop; where the source goes on with the same
  list, now known to hold dictionaries only, the model goes on with those dictionaries.
  The first message prints the type of \<open>tag_group_dicts\<close> in every round.
\<close>

fun check_elements :: "string \<Rightarrow> item list \<Rightarrow> exn + element_dict list" where
  "check_elements name [] = Inr []"
| "check_elements name (Dict d # l) =
     (case check_elements name l of Inl e \<Rightarrow> Inl e | Inr ds \<Rightarrow> Inr (d # ds))"
| "check_elements name (StrItem s # l) =
     Inl (TORIParseError (name @ '' element must be passed as a dict, not type: ''
            @ item_type_str (StrItem s) @ ''. Object given: '' @ s))"
| "check_elements name (NoneItem # l) =
     Inl (TORIParseError (name @ '' element must be passed as a dict, not type: ''
            @ item_type_str NoneItem @ ''. Object given: None''))"

fun check_list :: "string \<Rightarrow> pyobj \<Rightarrow> pyobj \<Rightarrow> exn + element_dict list" where
  "check_list name tag_group_dicts (ListObj l) = check_elements name l"
| "check_list name tag_group_dicts (ItemObj i) =
     Inl (TORIParseError (name @ '' must be passed as a list, not type: ''
            @ type_str tag_group_dicts))"

text \<open>
  \<^verbatim>\<open>
  for key in <slots>:
      if key not in <element dict>:
          raise TORIParseError('<message>: {}'.format(key))
  \<close>
\<close>

fun check_keys :: "string \<Rightarrow> string list \<Rightarrow> element_dict \<Rightarrow> exn + unit" where
  "check_keys message [] d = Inr ()"
| "check_keys message (key # ks) d =
     (if \<not> contains d key then Inl (TORIParseError (message @ key))
      else check_keys message ks d)"

text \<open>
  \<^verbatim>\<open>
  tag_groups = [elements.DEFAULT_TAG_GROUP]
  for tag_group_dict in tag_group_dicts:
      for key in elements.TagGroup.__slots__:
          if key not in tag_group_dict:
              raise TORIParseError('TagGroup dict missing key: {}'.format(key))
      tag_group = elements.TagGroup(**{slot: tag_group_dict[slot]
                                       for slot in elements.TagGroup.__slots__})
      tag_groups.append(tag_group)
  tag_group_map = {getattr(tag_group, elements.TagGroup.__key_attr__): tag_group
                   for tag_group in tag_groups}
  \<close>
  Each loop is a function of the list built so far. A comprehension over the slots
  reads the slots in their order, and raises \<open>KeyError\<close> at the first one missing.
\<close>

definition build_tag_group :: "element_dict \<Rightarrow> exn + TagGroup" where
  "build_tag_group tag_group_dict =
     (case check_keys ''TagGroup dict missing key: '' TagGroup_slots tag_group_dict of
        Inl e \<Rightarrow> Inl e
      | Inr _ \<Rightarrow>
     (case getitem k_name ''name'' tag_group_dict of
        Inl e \<Rightarrow> Inl e
      | Inr name \<Rightarrow>
     (case getitem k_description ''description'' tag_group_dict of
        Inl e \<Rightarrow> Inl e
      | Inr description \<Rightarrow> Inr (TagGroup_init name description))))"

fun build_tag_groups :: "TagGroup list \<Rightarrow> element_dict list \<Rightarrow> exn + TagGroup list" where
  "build_tag_groups acc [] = Inr acc"
| "build_tag_groups acc (tag_group_dict # ds) =
     (case build_tag_group tag_group_dict of
        Inl e \<Rightarrow> Inl e
      | Inr tag_group \<Rightarrow> build_tag_groups (acc @ [tag_group]) ds)"

definition tag_group_map :: "TagGroup list \<Rightarrow> (string \<rightharpoonup> TagGroup)" where
  "tag_group_map tgs = fold (\<lambda>tag_group m. m(tg_name tag_group \<mapsto> tag_group)) tgs Map.empty"

text \<open>
  \<^verbatim>\<open>
  tags = []
  for tag_dict in tag_dicts:
      for key in elements.Tag.__slots__:
          if key not in tag_dict:
              raise TORIParseError('Tag dict missing key: {}'.format(key))
      tag_group = tag_dict['group']
      if tag_group not in tag_group_map:
          raise TORIParseError('Tag {} has undefined group {}'
                               .format(tag_dict['name'], tag_group))
      tag_dict = {slot: tag_dict[slot] for slot in elements.Tag.__slots__}
      tag_dict.update(group=tag_group_map[tag_group])
      tag = elements.Tag(**tag_dict)
      tags.append(tag)
  tag_map = {getattr(tag, elements.Tag.__key_attr__): tag for tag in tags}
  \<close>
\<close>

definition build_tag :: "(string \<rightharpoonup> TagGroup) \<Rightarrow> element_dict \<Rightarrow> exn + Tag" where
  "build_tag tgm tag_dict =
     (case check_keys ''Tag dict missing key: '' Tag_slots tag_dict of
        Inl e \<Rightarrow> Inl e
      | Inr _ \<Rightarrow>
     (case getitem k_group ''group'' tag_dict of
        Inl e \<Rightarrow> Inl e
      | Inr tag_group \<Rightarrow>
     (case tgm tag_group of
        None \<Rightarrow>
          (case getitem k_name ''name'' tag_dict of
             Inl e \<Rightarrow> Inl e
           | Inr name \<Rightarrow>
               Inl (TORIParseError (''Tag '' @ name @ '' has undefined group '' @ tag_group)))
      | Some g \<Rightarrow>
     (case getitem k_name ''name'' tag_dict of
        Inl e \<Rightarrow> Inl e
      | Inr name \<Rightarrow>
     (case getitem k_description ''description'' tag_dict of
        Inl e \<Rightarrow> Inl e
      | Inr description \<Rightarrow>
     (case getitem k_group ''group'' tag_dict of
        Inl e \<Rightarrow> Inl e
      | Inr _ \<Rightarrow> Inr (Tag_init name description (Some g))))))))"

fun build_tags :: "(string \<rightharpoonup> TagGroup) \<Rightarrow> Tag list \<Rightarrow> element_dict list \<Rightarrow> exn + Tag list" where
  "build_tags tgm acc [] = Inr acc"
| "build_tags tgm acc (tag_dict # ds) =
     (case build_tag tgm tag_dict of
        Inl e \<Rightarrow> Inl e
      | Inr tag \<Rightarrow> build_tags tgm (acc @ [tag]) ds)"

definition tag_map :: "Tag list \<Rightarrow> (string \<rightharpoonup> Tag)" where
  "tag_map ts = fold (\<lambda>tag m. m(t_name tag \<mapsto> tag)) ts Map.empty"

text \<open>
  \<^verbatim>\<open>
  references = []
  for reference_dict in reference_dicts:
      for key in elements.Reference.__required_slots__:
          if key not in reference_dict:
              raise TORIParseError('Reference dict missing required key: {}'.format(key))
      reference_tags = []
      raw_tags = reference_dict['tags']
      for raw_tag in raw_tags:
          if raw_tag not in tag_map:
              raise TORIParseError('Reference {} has undefined tag {}'
                                   .format(reference_dict['title'], raw_tag))
          reference_tags.append(tag_map[raw_tag])
      reference_dict = {slot: reference_dict[slot] for slot in elements.Reference.__slots__}
      reference_dict.update(tags=reference_tags)
      reference = elements.Reference(**reference_dict)
      references.append(reference)
  \<close>
  The comprehension ranges over \<^verbatim>\<open>__slots__\<close>, the required slots followed by the
  optional slot \<open>url\<close>.
\<close>

fun resolve_tags ::
  "(string \<rightharpoonup> Tag) \<Rightarrow> element_dict \<Rightarrow> Tag list \<Rightarrow> string list \<Rightarrow> exn + Tag list" where
  "resolve_tags tm reference_dict reference_tags [] = Inr reference_tags"
| "resolve_tags tm reference_dict reference_tags (raw_tag # raw_tags) =
     (case tm raw_tag of
        None \<Rightarrow>
          (case getitem k_title ''title'' reference_dict of
             Inl e \<Rightarrow> Inl e
           | Inr title \<Rightarrow>
               Inl (TORIParseError (''Reference '' @ title @ '' has undefined tag '' @ raw_tag)))
      | Some tag \<Rightarrow> resolve_tags tm reference_dict (reference_tags @ [tag]) raw_tags)"

definition build_reference :: "(string \<rightharpoonup> Tag) \<Rightarrow> element_dict \<Rightarrow> exn + Reference" where
  "build_reference tm reference_dict =
     (case check_keys ''Reference dict missing required key: '' Reference_required_slots
             reference_dict of
        Inl e \<Rightarrow> Inl e
      | Inr _ \<Rightarrow>
     (case getitem k_tags ''tags'' reference_dict of
        Inl e \<Rightarrow> Inl e
      | Inr raw_tags \<Rightarrow>
     (case resolve_tags tm reference_dict [] raw_tags of
        Inl e \<Rightarrow> Inl e
      | Inr reference_tags \<Rightarrow>
     (case getitem k_title ''title'' reference_dict of
        Inl e \<Rightarrow> Inl e
      | Inr title \<Rightarrow>
     (case getitem k_author ''author'' reference_dict of
        Inl e \<Rightarrow> Inl e
      | Inr author \<Rightarrow>
     (case getitem k_tags ''tags'' reference_dict of
        Inl e \<Rightarrow> Inl e
      | Inr _ \<Rightarrow>
     (case getitem k_url ''url'' reference_dict of
        Inl e \<Rightarrow> Inl e
      | Inr url \<Rightarrow> Reference_init title author url (Some reference_tags))))))))"

fun build_references ::
  "(string \<rightharpoonup> Tag) \<Rightarrow> Reference list \<Rightarrow> element_dict list \<Rightarrow> exn + Reference list" where
  "build_references tm acc [] = Inr acc"
| "build_references tm acc (reference_dict # ds) =
     (case build_reference tm reference_dict of
        Inl e \<Rightarrow> Inl e
      | Inr reference \<Rightarrow> build_references tm (acc @ [reference]) ds)"

text \<open>
  The whole of \<^verbatim>\<open>load_dict\<close>, in two parts. \<open>top_level_lists\<close> is the part up to the
  three lists of dictionaries: the check of the top-level keys, the three subscripts and
  the loop over the three lists.
\<close>

definition top_level_lists ::
  "tori_dict \<Rightarrow> exn + element_dict list \<times> element_dict list \<times> element_dict list" where
  "top_level_lists tori_dict =
     (case check_top_level (key_map tori_dict) [''tag_groups'', ''tags'', ''references''] of
        Inl e \<Rightarrow> Inl e
      | Inr _ \<Rightarrow>
     (case top_level_item tori_dict ''tag_groups'' of
        Inl e \<Rightarrow> Inl e
      | Inr tag_group_dicts \<Rightarrow>
     (case top_level_item tori_dict ''tags'' of
        Inl e \<Rightarrow> Inl e
      | Inr tag_dicts \<Rightarrow>
     (case top_level_item tori_dict ''references'' of
        Inl e \<Rightarrow> Inl e
      | Inr reference_dicts \<Rightarrow>
     (case check_list ''Tag Groups'' tag_group_dicts tag_group_dicts of
        Inl e \<Rightarrow> Inl e
      | Inr tgds \<Rightarrow>
     (case check_list ''Tags'' tag_group_dicts tag_dicts of
        Inl e \<Rightarrow> Inl e
      | Inr tds \<Rightarrow>
     (case check_list ''References'' tag_group_dicts reference_dicts of
        Inl e \<Rightarrow> Inl e
      | Inr rds \<Rightarrow> Inr (tgds, tds, rds))))))))"

text \<open>
  The second part builds the tag groups, the tags and the references, in this order, and
  ends with \<^verbatim>\<open>elements.TORI(tag_groups=tag_groups, tags=tags, references=references)\<close>.
\<close>

definition load_dict :: "tori_dict \<Rightarrow> exn + TORI" where
  "load_dict tori_dict =
     (case top_level_lists tori_dict of
        Inl e \<Rightarrow> Inl e
      | Inr (tgds, tds, rds) \<Rightarrow>
     (case build_tag_groups [DEFAULT_TAG_GROUP] tgds of
        Inl e \<Rightarrow> Inl e
      | Inr tgs \<Rightarrow>
     (case build_tags (tag_group_map tgs) [] tds of
        Inl e \<Rightarrow> Inl e
      | Inr ts \<Rightarrow>
     (case build_references (tag_map ts) [] rds of
        Inl e \<Rightarrow> Inl e
      | Inr rs \<Rightarrow> Inr (TORI_init tgs ts rs)))))"

section \<open>Example inputs\<close>

text \<open>
  A catalog with one duplicated tag group, one tag without a description and one
  duplicated reference.
\<close>

definition example_group :: TagGroup where
  "example_group = TagGroup_init ''g'' ''a group''"

definition example_tag :: Tag where
  "example_tag = Tag_init ''t'' [] (Some example_group)"

definition example_reference :: Reference where
  "example_reference =
     \<lparr>r_title = ''r'', r_author = [''a''], r_tags = [example_tag], r_url = None\<rparr>"

definition example_catalog :: TORI where
  "example_catalog =
     TORI_init [example_group, example_group] [example_tag] [example_reference, example_reference]"

text \<open>
  Input mappings. \<open>no_keys\<close> is the empty dictionary. \<open>mapping_without_url\<close> has one tag
  group, one tag in it and one reference with that tag, with every required key and no
  \<open>url\<close>; \<open>mapping_with_url\<close> differs in the \<open>url\<close> only.
\<close>

definition no_keys :: element_dict where
  "no_keys = \<lparr>k_name = None, k_description = None, k_group = None, k_title = None,
               k_author = None, k_tags = None, k_url = None\<rparr>"

definition group_dict :: element_dict where
  "group_dict = no_keys\<lparr>k_name := Some ''g'', k_description := Some ''a group''\<rparr>"

definition tag_dict_t :: element_dict where
  "tag_dict_t = no_keys\<lparr>k_name := Some ''t'', k_description := Some ''a tag'',
                        k_group := Some ''g''\<rparr>"

definition reference_dict_without_url :: element_dict where
  "reference_dict_without_url =
     no_keys\<lparr>k_title := Some ''Book'', k_author := Some (AuthorStr ''A''),
             k_tags := Some [''t'']\<rparr>"

definition mapping_without_url :: tori_dict where
  "mapping_without_url =
     [(''tag_groups'', ListObj [Dict group_dict]),
      (''tags'', ListObj [Dict tag_dict_t]),
      (''references'', ListObj [Dict reference_dict_without_url])]"

definition mapping_with_url :: tori_dict where
  "mapping_with_url =
     [(''tag_groups'', ListObj [Dict group_dict]),
      (''tags'', ListObj [Dict tag_dict_t]),
      (''references'',
         ListObj [Dict (reference_dict_without_url\<lparr>k_url := Some (Some ''http://b'')\<rparr>)])]"

text \<open>A mapping whose list of tag groups is empty.\<close>

definition mapping_no_groups :: tori_dict where
  "mapping_no_groups =
     [(''tag_groups'', ListObj []),
      (''tags'', ListObj [Dict (tag_dict_t\<lparr>k_group := Some ''Default''\<rparr>)]),
      (''references'', ListObj [])]"

text \<open>
  Mappings with a dangling name: a tag in the undefined group \<open>nope\<close>; a reference
  with the undefined tag \<open>missing\<close>; and a tag without the key \<open>group\<close> followed by a
  complete tag in the undefined group \<open>nope\<close>.
\<close>

definition tag_dict_nope :: element_dict where
  "tag_dict_nope = no_keys\<lparr>k_name := Some ''b'', k_description := Some ''another tag'',
                           k_group := Some ''nope''\<rparr>"

definition mapping_undefined_group :: tori_dict where
  "mapping_undefined_group =
     [(''tag_groups'', ListObj [Dict group_dict]),
      (''tags'', ListObj [Dict tag_dict_t, Dict tag_dict_nope]),
      (''references'', ListObj [])]"

definition reference_dict_missing_tag :: element_dict where
  "reference_dict_missing_tag =
     no_keys\<lparr>k_title := Some ''Book'', k_author := Some (AuthorStr ''A''),
             k_tags := Some [''t'', ''missing''], k_url := Some None\<rparr>"

definition mapping_undefined_tag :: tori_dict where
  "mapping_undefined_tag =
     [(''tag_groups'', ListObj [Dict group_dict]),
      (''tags'', ListObj [Dict tag_dict_t]),
      (''references'', ListObj [Dict reference_dict_missing_tag])]"

definition tag_dict_no_group :: element_dict where
  "tag_dict_no_group = no_keys\<lparr>k_name := Some ''a'', k_description := Some ''a tag''\<rparr>"

definition mapping_incomplete_tag_first :: tori_dict where
  "mapping_incomplete_tag_first =
     [(''tag_groups'', ListObj []),
      (''tags'', ListObj [Dict tag_dict_no_group, Dict tag_dict_nope]),
      (''references'', ListObj [])]"

section \<open>Properties of the duplicate finder\<close>

lemma find_duplicates_loop_acc:
  "find_duplicates_loop x dups seen = dups @ find_duplicates_loop x [] seen"
proof (induction x arbitrary: dups seen)
  case Nil
  show ?case by simp
next
  case (Cons item x)
  show ?case
  proof (cases "item \<in> seen")
    case True
    have "find_duplicates_loop (item # x) dups seen = find_duplicates_loop x (dups @ [item]) seen"
      using True by simp
    also have "\<dots> = (dups @ [item]) @ find_duplicates_loop x [] seen"
      by (rule Cons.IH)
    also have "\<dots> = dups @ find_duplicates_loop x ([] @ [item]) seen"
      using Cons.IH [of "[] @ [item]" seen] by simp
    also have "\<dots> = dups @ find_duplicates_loop (item # x) [] seen"
      using True by simp
    finally show ?thesis .
  next
    case False
    then show ?thesis using Cons.IH [of dups "insert item seen"] by simp
  qed
qed

lemma find_duplicates_loop_snoc:
  "find_duplicates_loop (x @ [item]) dups seen =
     find_duplicates_loop x dups seen @ (if item \<in> seen \<union> set x then [item] else [])"
  by (induction x arbitrary: dups seen) auto

lemma find_duplicates_loop_empty_iff:
  "find_duplicates_loop x dups seen = [] \<longleftrightarrow> dups = [] \<and> distinct x \<and> set x \<inter> seen = {}"
proof (induction x arbitrary: dups seen)
  case Nil
  show ?case by simp
next
  case (Cons item x)
  show ?case
  proof (cases "item \<in> seen")
    case True
    then show ?thesis using Cons.IH [of "dups @ [item]" seen] by auto
  next
    case False
    then show ?thesis using Cons.IH [of dups "insert item seen"] by auto
  qed
qed

lemma find_duplicates_snoc:
  "find_duplicates (x @ [item]) = find_duplicates x @ (if item \<in> set x then [item] else [])"
  by (simp add: find_duplicates_def find_duplicates_loop_snoc)

lemma count_find_duplicates:
  "count_list (find_duplicates x) y = count_list x y - 1"
proof (induction x rule: rev_induct)
  case Nil
  show ?case by (simp add: find_duplicates_def)
next
  case (snoc item x)
  show ?case
  proof (cases "item \<in> set x")
    case True
    then have "count_list x item \<noteq> 0" by (simp add: count_list_0_iff)
    then have "0 < count_list x item" by simp
    then show ?thesis using snoc True by (auto simp: find_duplicates_snoc)
  next
    case False
    then have "count_list x item = 0" by (simp add: count_list_0_iff)
    then show ?thesis using snoc False by (auto simp: find_duplicates_snoc)
  qed
qed

lemma distinct_count_list_le_1:
  "distinct xs \<longleftrightarrow> (\<forall>y. count_list xs y \<le> 1)"
proof (induction xs)
  case Nil
  show ?case by simp
next
  case (Cons a xs)
  show ?case
  proof
    assume d: "distinct (a # xs)"
    then have "a \<notin> set xs" and "\<forall>y. count_list xs y \<le> 1" using Cons.IH by auto
    then show "\<forall>y. count_list (a # xs) y \<le> 1" by (auto simp: count_list_0_iff)
  next
    assume c: "\<forall>y. count_list (a # xs) y \<le> 1"
    have "count_list xs a = 0" using c [rule_format, of a] by simp
    then have "a \<notin> set xs" by (simp add: count_list_0_iff)
    moreover have "\<forall>y. count_list xs y \<le> 1"
    proof
      fix y show "count_list xs y \<le> 1" using c [rule_format, of y] by (simp split: if_splits)
    qed
    ultimately show "distinct (a # xs)" using Cons.IH by simp
  qed
qed

lemma set_find_duplicates: "set (find_duplicates S) = {y. 1 < count_list S y}"
proof -
  have "y \<in> set (find_duplicates S) \<longleftrightarrow> 1 < count_list S y" for y
  proof -
    have "y \<in> set (find_duplicates S) \<longleftrightarrow> count_list (find_duplicates S) y \<noteq> 0"
      by (simp add: count_list_0_iff)
    also have "\<dots> \<longleftrightarrow> 1 < count_list S y"
      by (auto simp: count_find_duplicates)
    finally show ?thesis .
  qed
  then show ?thesis by blast
qed

lemma distinct_find_duplicates:
  "distinct (find_duplicates S) \<longleftrightarrow> (\<forall>y \<in> set S. count_list S y \<le> 2)"
proof -
  have "distinct (find_duplicates S) \<longleftrightarrow> (\<forall>y. count_list S y - 1 \<le> 1)"
    by (simp add: distinct_count_list_le_1 count_find_duplicates)
  also have "\<dots> \<longleftrightarrow> (\<forall>y. count_list S y \<le> 2)"
  proof -
    have "count_list S y - 1 \<le> 1 \<longleftrightarrow> count_list S y \<le> 2" for y by arith
    then show ?thesis by simp
  qed
  also have "\<dots> \<longleftrightarrow> (\<forall>y \<in> set S. count_list S y \<le> 2)"
    by (metis count_notin zero_le)
  finally show ?thesis .
qed

section \<open>Claims about the duplicate finder\<close>

text \<open>
  C4. For every sequence \<open>S\<close>, \<^verbatim>\<open>find_duplicates(S)\<close> is empty if and only if the elements
  of \<open>S\<close> are pairwise distinct under value equality; for \<open>S = [1, 2, 3, 3]\<close> the result
  is \<open>[3]\<close>.
\<close>

theorem find_duplicates_empty_iff_distinct:
  "(find_duplicates S = [] \<longleftrightarrow> distinct S) \<and> find_duplicates [1, 2, 3, 3 :: int] = [3]"
  by (simp add: find_duplicates_def find_duplicates_loop_empty_iff)

text \<open>An instance: three distinct integers have no duplicates.\<close>

theorem find_duplicates_empty_iff_distinct_witness:
  "find_duplicates [1, 2, 3 :: int] = [] \<and> distinct [1, 2, 3 :: int]"
  using find_duplicates_empty_iff_distinct [of "[1, 2, 3 :: int]"] by simp

text \<open>
  C3, as stated: each duplicate is reported exactly once, also an element that occurs
  three or more times. The loop appends at every occurrence after the first, so an
  element occurring three times is reported twice.
\<close>

theorem find_duplicates_thrice_counterexample:
  "find_duplicates [3, 3, 3 :: int] = [3, 3] \<and> count_list (find_duplicates [3, 3, 3 :: int]) 3 = 2"
  by (simp add: find_duplicates_def)

text \<open>
  C3, amended. \<^verbatim>\<open>find_duplicates\<close> returns, in the order of the sequence, every occurrence
  of an element that has occurred before: an element occurring \<open>k\<close> times is reported
  \<open>k - 1\<close> times, the elements reported are those occurring more than once, and each one
  is reported exactly once if and only if no element occurs more than twice.
\<close>

theorem find_duplicates_repeats:
  "find_duplicates [] = []
   \<and> find_duplicates (S @ [x]) = find_duplicates S @ (if x \<in> set S then [x] else [])
   \<and> count_list (find_duplicates S) y = count_list S y - 1
   \<and> set (find_duplicates S) = {y. 1 < count_list S y}
   \<and> (distinct (find_duplicates S) \<longleftrightarrow> (\<forall>y \<in> set S. count_list S y \<le> 2))"
  using find_duplicates_snoc [of S x] count_find_duplicates [of S y] set_find_duplicates [of S]
    distinct_find_duplicates [of S]
  by (simp add: find_duplicates_def)

text \<open>An instance: in \<open>[1, 2, 1, 2]\<close> each duplicate occurs twice and is reported once.\<close>

theorem find_duplicates_repeats_witness:
  "find_duplicates ([1, 2, 1, 2] @ [1 :: int]) = [1, 2, 1]
   \<and> count_list (find_duplicates [1, 2, 1, 2 :: int]) 1 = 1
   \<and> set (find_duplicates [1, 2, 1, 2 :: int]) = {1, 2}
   \<and> distinct (find_duplicates [1, 2, 1, 2 :: int])"
  using find_duplicates_repeats [of "[1, 2, 1, 2 :: int]" 1 1]
  by (simp add: find_duplicates_def)
section \<open>Properties of the scheme elements and of the catalog\<close>

lemma find_duplicates_empty_iff: "find_duplicates x = [] \<longleftrightarrow> distinct x"
  by (simp add: find_duplicates_def find_duplicates_loop_empty_iff)

lemma find_duplicates_pair: "find_duplicates [a, b] = (if a = b then [a] else [])"
  by (auto simp: find_duplicates_def)

lemma tag_groups_TORI_init [simp]: "tag_groups (TORI_init tgs ts rs) = tgs"
  and tags_TORI_init [simp]: "tags (TORI_init tgs ts rs) = ts"
  and references_TORI_init [simp]: "references (TORI_init tgs ts rs) = rs"
  and errors_TORI_init [simp]: "errors (TORI_init tgs ts rs) = []"
  by (simp_all add: TORI_init_def set_keys_def)

lemma tg_name_TagGroup_init [simp]: "tg_name (TagGroup_init n d) = n"
  and tg_description_TagGroup_init [simp]: "tg_description (TagGroup_init n d) = d"
  by (simp_all add: TagGroup_init_def)

lemma TagGroup_init_eq_iff [simp]:
  "TagGroup_init n d = TagGroup_init n' d' \<longleftrightarrow> n = n' \<and> d = d'"
  by (simp add: TagGroup_init_def)

lemma validate_tag_groups_distinct:
  "distinct (tag_groups self) \<Longrightarrow> validate_tag_groups self collect_errors = Inr (True, self)"
  by (simp add: validate_tag_groups_def find_duplicates_empty_iff)

lemma validate_tag_groups_raise:
  "\<not> distinct (tag_groups self) \<Longrightarrow>
   validate_tag_groups self False =
     Inl (TORISchemeError (''Tag Groups must be unique, found duplicates: ''
            @ list_str (map TagGroup_repr (find_duplicates (tag_groups self)))))"
  by (simp add: validate_tag_groups_def find_duplicates_empty_iff raise_error_def Let_def)

lemma validate_tag_groups_collect:
  "\<not> distinct (tag_groups self) \<Longrightarrow>
   validate_tag_groups self True =
     Inr (False, self\<lparr>errors := errors self @
            [''Tag Groups must be unique, found duplicates: ''
               @ list_str (map TagGroup_repr (find_duplicates (tag_groups self)))]\<rparr>)"
  by (simp add: validate_tag_groups_def find_duplicates_empty_iff raise_error_def Let_def)

lemma validate_fail_fast:
  assumes "\<not> distinct (tag_groups self)"
  shows "validate self False =
     Inl (TORISchemeError (''Tag Groups must be unique, found duplicates: ''
            @ list_str (map TagGroup_repr (find_duplicates (tag_groups self)))))"
proof -
  have "\<not> distinct (tag_groups (clear_errors self))"
    using assms by (simp add: clear_errors_def)
  from validate_tag_groups_raise [OF this] show ?thesis
    by (simp add: validate_def clear_errors_def)
qed

section \<open>Claims about the scheme elements\<close>

text \<open>
  C9. \<^verbatim>\<open>add_tag\<close> with a tag that is already among the reference's tags (by value
  equality) leaves the reference unchanged; so a second \<^verbatim>\<open>add_tag\<close> with the same tag
  changes nothing, and the length of the tag sequence stays what it was after the first.
\<close>

theorem add_tag_idempotent:
  "(tag \<in> set (r_tags self) \<longrightarrow> add_tag self tag = self)
   \<and> add_tag (add_tag self tag) tag = add_tag self tag
   \<and> length (r_tags (add_tag (add_tag self tag) tag)) = length (r_tags (add_tag self tag))"
  by (simp add: add_tag_def)

text \<open>An instance: a reference that holds the tag, and one that does not hold it yet.\<close>

theorem add_tag_idempotent_witness:
  "Tag_init ''t'' ''d'' None \<in> set (r_tags \<lparr>r_title = ''r'', r_author = [''a''], r_tags = [Tag_init ''t'' ''d'' None], r_url = None\<rparr>)
   \<and> add_tag \<lparr>r_title = ''r'', r_author = [''a''], r_tags = [Tag_init ''t'' ''d'' None], r_url = None\<rparr> (Tag_init ''t'' ''d'' None)
       = \<lparr>r_title = ''r'', r_author = [''a''], r_tags = [Tag_init ''t'' ''d'' None], r_url = None\<rparr>
   \<and> r_tags (add_tag (add_tag \<lparr>r_title = ''r'', r_author = [''a''], r_tags = [], r_url = None\<rparr> (Tag_init ''t'' ''d'' None)) (Tag_init ''t'' ''d'' None))
       = [Tag_init ''t'' ''d'' None]"
  using add_tag_idempotent [of "Tag_init ''t'' ''d'' None"
      "\<lparr>r_title = ''r'', r_author = [''a''], r_tags = [Tag_init ''t'' ''d'' None], r_url = None\<rparr>"]
  by (simp add: add_tag_def)

text \<open>
  C10. Constructing a \<^verbatim>\<open>Reference\<close> without the argument \<open>tags\<close>, or with \<open>None\<close>, raises
  \<open>TypeError\<close>; every \<^verbatim>\<open>Reference\<close> that was constructed was given its tags, and holds them.
\<close>

theorem Reference_init_requires_tags:
  "Reference_init title author url None = Inl (TypeError '''NoneType' object is not iterable'')
   \<and> (Reference_init title author url tgs = Inr r \<longrightarrow> (\<exists>ts. tgs = Some ts \<and> r_tags r = ts))"
  by (auto simp: Reference_init_def Let_def split: option.splits)

text \<open>An instance: a reference constructed with an empty list of tags.\<close>

theorem Reference_init_requires_tags_witness:
  "Reference_init ''T'' (AuthorStr ''A'') None (Some [])
     = Inr \<lparr>r_title = ''T'', r_author = [''A''], r_tags = [], r_url = None\<rparr>
   \<and> (\<exists>ts. Some ([] :: Tag list) = Some ts \<and> r_tags \<lparr>r_title = ''T'', r_author = [''A''], r_tags = [], r_url = None\<rparr> = ts)"
  using Reference_init_requires_tags [of "''T''" "AuthorStr ''A''" None "Some []"
      "\<lparr>r_title = ''T'', r_author = [''A''], r_tags = [], r_url = None\<rparr>"]
  by (simp add: Reference_init_def)

section \<open>Claims about validation\<close>

text \<open>
  C7. The uniqueness check compares all attributes. A catalog of two tag groups with the
  same name and the same description fails \<^verbatim>\<open>validate_tag_groups\<close> (it raises, or when
  collecting records the message and returns \<open>False\<close>); a catalog of two tag groups with
  the same name and different descriptions passes. In general the check passes exactly
  when the tag groups are pairwise distinct as values.
\<close>

theorem validate_tag_groups_value_equality:
  "validate_tag_groups (TORI_init [TagGroup_init n d, TagGroup_init n d] ts rs) False
     = Inl (TORISchemeError (''Tag Groups must be unique, found duplicates: [TagGroup('' @ n @ '')]''))
   \<and> validate_tag_groups (TORI_init [TagGroup_init n d, TagGroup_init n d] ts rs) True
     = Inr (False, (TORI_init [TagGroup_init n d, TagGroup_init n d] ts rs)
          \<lparr>errors := [''Tag Groups must be unique, found duplicates: [TagGroup('' @ n @ '')]'']\<rparr>)
   \<and> (d1 \<noteq> d2 \<longrightarrow>
        validate_tag_groups (TORI_init [TagGroup_init n d1, TagGroup_init n d2] ts rs) collect_errors
          = Inr (True, TORI_init [TagGroup_init n d1, TagGroup_init n d2] ts rs))
   \<and> ((\<exists>self'. validate_tag_groups self collect_errors = Inr (True, self'))
        \<longleftrightarrow> distinct (tag_groups self))"
proof -
  have dup: "find_duplicates [TagGroup_init n d, TagGroup_init n d] = [TagGroup_init n d]"
    by (simp add: find_duplicates_pair)
  have 1: "validate_tag_groups (TORI_init [TagGroup_init n d, TagGroup_init n d] ts rs) False
     = Inl (TORISchemeError (''Tag Groups must be unique, found duplicates: [TagGroup('' @ n @ '')]''))"
    by (simp add: validate_tag_groups_def dup raise_error_def list_str_def TagGroup_repr_def)
  have 2: "validate_tag_groups (TORI_init [TagGroup_init n d, TagGroup_init n d] ts rs) True
     = Inr (False, (TORI_init [TagGroup_init n d, TagGroup_init n d] ts rs)
          \<lparr>errors := [''Tag Groups must be unique, found duplicates: [TagGroup('' @ n @ '')]'']\<rparr>)"
    by (simp add: validate_tag_groups_def dup raise_error_def list_str_def TagGroup_repr_def)
  have 3: "d1 \<noteq> d2 \<longrightarrow>
        validate_tag_groups (TORI_init [TagGroup_init n d1, TagGroup_init n d2] ts rs) collect_errors
          = Inr (True, TORI_init [TagGroup_init n d1, TagGroup_init n d2] ts rs)"
    by (simp add: validate_tag_groups_distinct)
  have 4: "(\<exists>self'. validate_tag_groups self collect_errors = Inr (True, self'))
        \<longleftrightarrow> distinct (tag_groups self)"
  proof (cases "distinct (tag_groups self)")
    case True
    then show ?thesis by (simp add: validate_tag_groups_distinct)
  next
    case False
    then show ?thesis
      by (cases collect_errors) (simp_all add: validate_tag_groups_raise validate_tag_groups_collect)
  qed
  from 1 2 3 4 show ?thesis by blast
qed

text \<open>An instance: the group \<open>g\<close> twice, and the group \<open>g\<close> under two descriptions.\<close>

theorem validate_tag_groups_value_equality_witness:
  "validate_tag_groups (TORI_init [TagGroup_init ''g'' ''one'', TagGroup_init ''g'' ''one''] [] []) False
     = Inl (TORISchemeError ''Tag Groups must be unique, found duplicates: [TagGroup(g)]'')
   \<and> ''one'' \<noteq> ''two''
   \<and> validate_tag_groups (TORI_init [TagGroup_init ''g'' ''one'', TagGroup_init ''g'' ''two''] [] []) False
     = Inr (True, TORI_init [TagGroup_init ''g'' ''one'', TagGroup_init ''g'' ''two''] [] [])"
  using validate_tag_groups_value_equality [of "''g''" "''one''" "[]" "[]" "''one''" "''two''" False]
  by simp

text \<open>
  C5. On a catalog with duplicate tag groups, \<^verbatim>\<open>validate\<close> with \<^verbatim>\<open>collect_errors=False\<close>
  raises the error of the tag-group uniqueness check, which is the first check; the tags
  and the references are never looked at, so the outcome is the same whatever they are.
\<close>

theorem validate_raises_at_tag_groups:
  "\<not> distinct (tag_groups self) \<Longrightarrow>
   (\<exists>e. validate_tag_groups (clear_errors self) False = Inl e
        \<and> validate self False = Inl e
        \<and> e = TORISchemeError (''Tag Groups must be unique, found duplicates: ''
                  @ list_str (map TagGroup_repr (find_duplicates (tag_groups self)))))
   \<and> validate (self\<lparr>tags := ts, references := rs\<rparr>) False = validate self False"
proof -
  assume d: "\<not> distinct (tag_groups self)"
  have e: "\<not> distinct (tag_groups (clear_errors self))"
    using d by (simp add: clear_errors_def)
  have f: "\<not> distinct (tag_groups (self\<lparr>tags := ts, references := rs\<rparr>))"
    using d by simp
  show ?thesis
    using validate_fail_fast [OF d] validate_fail_fast [OF f] validate_tag_groups_raise [OF e]
    by (simp add: clear_errors_def)
qed

text \<open>
  An instance: the example catalog, whose tag without a description and duplicated
  reference are not reached.
\<close>

theorem validate_raises_at_tag_groups_witness:
  "\<not> distinct (tag_groups example_catalog)
   \<and> validate example_catalog False
       = Inl (TORISchemeError ''Tag Groups must be unique, found duplicates: [TagGroup(g)]'')
   \<and> validate (example_catalog\<lparr>tags := [], references := []\<rparr>) False
       = validate example_catalog False"
proof -
  have d: "\<not> distinct (tag_groups example_catalog)"
    by (simp add: example_catalog_def)
  have "find_duplicates (tag_groups example_catalog) = [example_group]"
    by (simp add: example_catalog_def find_duplicates_pair)
  then show ?thesis
    using d validate_raises_at_tag_groups [OF d, of "[]" "[]"]
    by (simp add: list_str_def TagGroup_repr_def example_group_def)
qed
section \<open>Properties of the validation loops\<close>

lemma validate_tags_loop_complete_prefix:
  "\<forall>u \<in> set pre. t_name u \<noteq> [] \<and> t_description u \<noteq> [] \<Longrightarrow>
   validate_tags_loop (pre @ rest) valid self = validate_tags_loop rest valid self"
  by (induction pre) simp_all

lemma validate_tags_loop_incomplete_head:
  "t_name t = [] \<or> t_description t = [] \<Longrightarrow>
   validate_tags_loop (t # post) valid self =
     Inl (TORISchemeError ((if t_name t = [] then ''Tag missing name: ''
                            else ''Tag missing description: '') @ Tag_repr t))"
  by (auto simp: raise_error_def)

lemma validate_tag_groups_collect_tags:
  "\<exists>b self'. validate_tag_groups self True = Inr (b, self') \<and> tags self' = tags self"
  by (auto simp: validate_tag_groups_def raise_error_def Let_def)

lemma validate_references_loop_complete_prefix:
  "\<forall>u \<in> set pre. r_title u \<noteq> [] \<and> r_author u \<noteq> [] \<Longrightarrow>
   validate_references_loop (pre @ rest) valid self = validate_references_loop rest valid self"
  by (induction pre) simp_all

lemma validate_references_loop_incomplete_head:
  "r_title r = [] \<or> r_author r = [] \<Longrightarrow>
   validate_references_loop (r # post) valid self =
     Inl (TORISchemeError ((if r_title r = [] then ''Reference missing title: ''
                            else ''Reference missing author: '') @ Reference_repr r))"
  by (auto simp: raise_error_def)

lemma validate_tag_groups_collect_eq:
  "validate_tag_groups self True =
     Inr (distinct (tag_groups self),
          if distinct (tag_groups self) then self
          else self\<lparr>errors := errors self @
                 [''Tag Groups must be unique, found duplicates: ''
                    @ list_str (map TagGroup_repr (find_duplicates (tag_groups self)))]\<rparr>)"
  by (simp add: validate_tag_groups_distinct validate_tag_groups_collect)

lemma validate_tags_collect_complete:
  assumes "\<forall>u \<in> set (tags self). t_name u \<noteq> [] \<and> t_description u \<noteq> []"
  shows "validate_tags self True =
     Inr (distinct (tags self),
          if distinct (tags self) then self
          else self\<lparr>errors := errors self @
                 [''Tags must be unique, found duplicates: ''
                    @ list_str (map Tag_repr (find_duplicates (tags self)))]\<rparr>)"
proof -
  have "validate_tags_loop (tags self) True self = Inr (True, self)"
    using validate_tags_loop_complete_prefix [OF assms, of "[]" True self] by simp
  then show ?thesis
    by (simp add: validate_tags_def find_duplicates_empty_iff raise_error_def Let_def)
qed

lemma validate_references_collect_complete:
  assumes "\<forall>u \<in> set (references self). r_title u \<noteq> [] \<and> r_author u \<noteq> []"
  shows "validate_references self True =
     Inr (distinct (references self),
          if distinct (references self) then self
          else self\<lparr>errors := errors self @
                 [''References must be unique, found duplicates: ''
                    @ list_str (map Reference_repr (find_duplicates (references self)))]\<rparr>)"
proof -
  have "validate_references_loop (references self) True self = Inr (True, self)"
    using validate_references_loop_complete_prefix [OF assms, of "[]" True self] by simp
  then show ?thesis
    by (simp add: validate_references_def find_duplicates_empty_iff raise_error_def Let_def)
qed

section \<open>Claims about collecting validation errors\<close>

text \<open>
  C1 says that \<^verbatim>\<open>validate\<close> with \<^verbatim>\<open>collect_errors=True\<close> records every problem, raises
  nothing and returns the messages. The attribute checks of \<^verbatim>\<open>validate_tags\<close> call
  \<^verbatim>\<open>_raise_error\<close> without \<^verbatim>\<open>collect=collect_errors\<close>, so the code raises instead: on every
  catalog, at the first tag without a name or without a description, also when collecting.
\<close>

theorem validate_collect_raises_on_tag:
  assumes "tags self = pre @ t # post"
    and "\<forall>u \<in> set pre. t_name u \<noteq> [] \<and> t_description u \<noteq> []"
    and "t_name t = [] \<or> t_description t = []"
  shows "validate self True =
     Inl (TORISchemeError ((if t_name t = [] then ''Tag missing name: ''
                            else ''Tag missing description: '') @ Tag_repr t))"
proof -
  obtain b self1 where g: "validate_tag_groups (clear_errors self) True = Inr (b, self1)"
    and t: "tags self1 = tags (clear_errors self)"
    using validate_tag_groups_collect_tags [of "clear_errors self"] by blast
  have "tags self1 = pre @ t # post"
    using t assms(1) by (simp add: clear_errors_def)
  then have "validate_tags_loop (tags self1) True self1 =
     Inl (TORISchemeError ((if t_name t = [] then ''Tag missing name: ''
                            else ''Tag missing description: '') @ Tag_repr t))"
    using validate_tags_loop_complete_prefix [OF assms(2)]
      validate_tags_loop_incomplete_head [OF assms(3)] by simp
  then have "validate_tags self1 True =
     Inl (TORISchemeError ((if t_name t = [] then ''Tag missing name: ''
                            else ''Tag missing description: '') @ Tag_repr t))"
    by (simp add: validate_tags_def)
  then show ?thesis using g by (simp add: validate_def)
qed

text \<open>
  An instance: the example catalog (one duplicated tag group, one tag without a
  description, one duplicated reference), validated with \<^verbatim>\<open>collect_errors=True\<close>.
\<close>

theorem validate_collect_raises_on_tag_witness:
  "tags example_catalog = [] @ example_tag # []
   \<and> t_description example_tag = []
   \<and> validate example_catalog True = Inl (TORISchemeError ''Tag missing description: Tag(t)'')"
proof -
  have t: "tags example_catalog = [] @ example_tag # []"
    by (simp add: example_catalog_def)
  have d: "t_name example_tag = [] \<or> t_description example_tag = []"
    by (simp add: example_tag_def Tag_init_def)
  have "validate example_catalog True = Inl (TORISchemeError ''Tag missing description: Tag(t)'')"
    using validate_collect_raises_on_tag [OF t _ d]
    by (simp add: example_tag_def Tag_init_def Tag_repr_def)
  then show ?thesis using t by (simp add: example_tag_def Tag_init_def)
qed

text \<open>
  The attribute checks of \<^verbatim>\<open>validate_references\<close> raise in the same way, once the tags have
  passed theirs.
\<close>

lemma validate_collect_raises_on_reference:
  assumes "\<forall>u \<in> set (tags self). t_name u \<noteq> [] \<and> t_description u \<noteq> []"
    and "references self = pre @ r # post"
    and "\<forall>u \<in> set pre. r_title u \<noteq> [] \<and> r_author u \<noteq> []"
    and "r_title r = [] \<or> r_author r = []"
  shows "validate self True =
     Inl (TORISchemeError ((if r_title r = [] then ''Reference missing title: ''
                            else ''Reference missing author: '') @ Reference_repr r))"
proof -
  obtain b1 self1 where 1: "validate_tag_groups (clear_errors self) True = Inr (b1, self1)"
    and t1: "tags self1 = tags self" and r1: "references self1 = references self"
    by (simp add: validate_tag_groups_collect_eq clear_errors_def)
  obtain b2 self2 where 2: "validate_tags self1 True = Inr (b2, self2)"
    and r2: "references self2 = references self"
    using assms(1) t1 r1 by (simp add: validate_tags_collect_complete)
  have "validate_references_loop (references self2) True self2 =
     Inl (TORISchemeError ((if r_title r = [] then ''Reference missing title: ''
                            else ''Reference missing author: '') @ Reference_repr r))"
    using r2 assms(2) validate_references_loop_complete_prefix [OF assms(3)]
      validate_references_loop_incomplete_head [OF assms(4)] by simp
  then have "validate_references self2 True =
     Inl (TORISchemeError ((if r_title r = [] then ''Reference missing title: ''
                            else ''Reference missing author: '') @ Reference_repr r))"
    by (simp add: validate_references_def)
  then show ?thesis using 1 2 by (simp add: validate_def)
qed

text \<open>
  What the collecting mode does collect: when every tag and every reference has its
  attributes, \<^verbatim>\<open>validate\<close> raises nothing and returns the messages of the uniqueness
  checks that failed, in the order tag groups, tags, references.
\<close>

lemma validate_collect_complete_attributes:
  assumes "\<forall>u \<in> set (tags self). t_name u \<noteq> [] \<and> t_description u \<noteq> []"
    and "\<forall>u \<in> set (references self). r_title u \<noteq> [] \<and> r_author u \<noteq> []"
  shows "\<exists>self'. validate self True = Inr (Errors (errors self'), self')
     \<and> errors self' =
         (if distinct (tag_groups self) then []
          else [''Tag Groups must be unique, found duplicates: ''
                  @ list_str (map TagGroup_repr (find_duplicates (tag_groups self)))])
         @ (if distinct (tags self) then []
            else [''Tags must be unique, found duplicates: ''
                    @ list_str (map Tag_repr (find_duplicates (tags self)))])
         @ (if distinct (references self) then []
            else [''References must be unique, found duplicates: ''
                    @ list_str (map Reference_repr (find_duplicates (references self)))])"
proof -
  obtain b1 self1 where 1: "validate_tag_groups (clear_errors self) True = Inr (b1, self1)"
    and t1: "tags self1 = tags self" and r1: "references self1 = references self"
    and e1: "errors self1 =
         (if distinct (tag_groups self) then []
          else [''Tag Groups must be unique, found duplicates: ''
                  @ list_str (map TagGroup_repr (find_duplicates (tag_groups self)))])"
    by (simp add: validate_tag_groups_collect_eq clear_errors_def)
  obtain b2 self2 where 2: "validate_tags self1 True = Inr (b2, self2)"
    and r2: "references self2 = references self"
    and e2: "errors self2 = errors self1 @
         (if distinct (tags self) then []
            else [''Tags must be unique, found duplicates: ''
                    @ list_str (map Tag_repr (find_duplicates (tags self)))])"
    using assms(1) t1 r1 by (simp add: validate_tags_collect_complete)
  obtain b3 self3 where 3: "validate_references self2 True = Inr (b3, self3)"
    and e3: "errors self3 = errors self2 @
         (if distinct (references self) then []
            else [''References must be unique, found duplicates: ''
                    @ list_str (map Reference_repr (find_duplicates (references self)))])"
    using assms(2) r2 by (simp add: validate_references_collect_complete)
  have "validate self True = Inr (Errors (errors self3), self3)"
    using 1 2 3 by (simp add: validate_def)
  then show ?thesis using e1 e2 e3 by auto
qed
section \<open>Properties of the loader\<close>

lemma contains_simps [simp]:
  "contains d ''name'' \<longleftrightarrow> k_name d \<noteq> None"
  "contains d ''description'' \<longleftrightarrow> k_description d \<noteq> None"
  "contains d ''group'' \<longleftrightarrow> k_group d \<noteq> None"
  "contains d ''title'' \<longleftrightarrow> k_title d \<noteq> None"
  "contains d ''author'' \<longleftrightarrow> k_author d \<noteq> None"
  "contains d ''tags'' \<longleftrightarrow> k_tags d \<noteq> None"
  "contains d ''url'' \<longleftrightarrow> k_url d \<noteq> None"
  by (simp_all add: contains_def)

lemma getitem_simps [simp]:
  "field d = Some v \<Longrightarrow> getitem field key d = Inr v"
  "field d = None \<Longrightarrow> getitem field key d = Inl (KeyError key)"
  by (simp_all add: getitem_def)

lemma build_tag_groups_append:
  "build_tag_groups acc (pre @ rest) =
     (case build_tag_groups acc pre of Inl e \<Rightarrow> Inl e | Inr acc' \<Rightarrow> build_tag_groups acc' rest)"
  by (induction pre arbitrary: acc) (simp_all split: sum.splits)

lemma build_tags_append:
  "build_tags tgm acc (pre @ rest) =
     (case build_tags tgm acc pre of Inl e \<Rightarrow> Inl e | Inr acc' \<Rightarrow> build_tags tgm acc' rest)"
  by (induction pre arbitrary: acc) (simp_all split: sum.splits)

lemma build_references_append:
  "build_references tm acc (pre @ rest) =
     (case build_references tm acc pre of Inl e \<Rightarrow> Inl e | Inr acc' \<Rightarrow> build_references tm acc' rest)"
  by (induction pre arbitrary: acc) (simp_all split: sum.splits)

lemma build_tag_groups_prefix:
  "build_tag_groups acc ds = Inr tgs \<Longrightarrow> \<exists>rest. tgs = acc @ rest \<and> length rest = length ds"
proof (induction ds arbitrary: acc)
  case Nil
  then show ?case by simp
next
  case (Cons d ds)
  then obtain g where "build_tag_group d = Inr g" and "build_tag_groups (acc @ [g]) ds = Inr tgs"
    by (auto split: sum.splits)
  then show ?case using Cons.IH [of "acc @ [g]"] by auto
qed

lemma build_tags_all:
  "build_tags tgm acc ds = Inr ts \<Longrightarrow> d \<in> set ds \<Longrightarrow> \<exists>t. build_tag tgm d = Inr t"
  by (induction ds arbitrary: acc) (auto split: sum.splits)

lemma build_references_all:
  "build_references tm acc ds = Inr rs \<Longrightarrow> d \<in> set ds \<Longrightarrow> \<exists>r. build_reference tm d = Inr r"
  by (induction ds arbitrary: acc) (auto split: sum.splits)

lemma build_tag_undefined_group:
  "k_name td = Some n \<Longrightarrow> k_description td = Some de \<Longrightarrow> k_group td = Some g \<Longrightarrow> tgm g = None \<Longrightarrow>
   build_tag tgm td = Inl (TORIParseError (''Tag '' @ n @ '' has undefined group '' @ g))"
  by (simp add: build_tag_def Tag_slots_def)

lemma build_tag_group_defined:
  "build_tag tgm td = Inr t \<Longrightarrow> k_group td = Some g \<Longrightarrow> tgm g \<noteq> None"
  by (auto simp: build_tag_def Tag_slots_def getitem_def split: if_splits option.splits sum.splits)

lemma resolve_tags_defined:
  "\<forall>x \<in> set raw. tm x \<noteq> None \<Longrightarrow> \<exists>ts. resolve_tags tm rd acc raw = Inr ts"
  by (induction raw arbitrary: acc) auto

lemma resolve_tags_undefined:
  "\<forall>y \<in> set tpre. tm y \<noteq> None \<Longrightarrow> tm x = None \<Longrightarrow> k_title rd = Some title \<Longrightarrow>
   resolve_tags tm rd acc (tpre @ x # tpost) =
     Inl (TORIParseError (''Reference '' @ title @ '' has undefined tag '' @ x))"
  by (induction tpre arbitrary: acc) auto

lemma resolve_tags_all_defined:
  "resolve_tags tm rd acc raw = Inr ts \<Longrightarrow> x \<in> set raw \<Longrightarrow> tm x \<noteq> None"
  by (induction raw arbitrary: acc) (auto split: option.splits sum.splits)

lemma build_reference_undefined_tag:
  "k_title rd = Some title \<Longrightarrow> k_author rd = Some a \<Longrightarrow> k_tags rd = Some (tpre @ x # tpost) \<Longrightarrow>
   \<forall>y \<in> set tpre. tm y \<noteq> None \<Longrightarrow> tm x = None \<Longrightarrow>
   build_reference tm rd = Inl (TORIParseError (''Reference '' @ title @ '' has undefined tag '' @ x))"
  by (simp add: build_reference_def Reference_required_slots_def resolve_tags_undefined)

lemma build_reference_tags_defined:
  "build_reference tm rd = Inr r \<Longrightarrow> k_tags rd = Some raw \<Longrightarrow> x \<in> set raw \<Longrightarrow> tm x \<noteq> None"
  by (auto simp: build_reference_def Reference_required_slots_def getitem_def
      split: if_splits option.splits sum.splits dest: resolve_tags_all_defined)

lemma build_reference_missing_url:
  assumes "k_title rd = Some title" "k_author rd = Some a" "k_tags rd = Some raw"
    and "\<forall>x \<in> set raw. tm x \<noteq> None" and "k_url rd = None"
  shows "build_reference tm rd = Inl (KeyError ''url'')"
proof -
  obtain ts where "resolve_tags tm rd [] raw = Inr ts"
    using resolve_tags_defined [OF assms(4)] by blast
  then show ?thesis using assms by (simp add: build_reference_def Reference_required_slots_def)
qed

lemma build_reference_has_url:
  "build_reference tm rd = Inr r \<Longrightarrow> k_url rd \<noteq> None"
  by (auto simp: build_reference_def getitem_def split: option.splits sum.splits)

lemma build_tag_missing_key:
  "k_name td = None \<or> k_description td = None \<or> k_group td = None \<Longrightarrow>
   build_tag tgm td =
     Inl (TORIParseError (''Tag dict missing key: ''
            @ (if k_name td = None then ''name''
               else if k_description td = None then ''description'' else ''group'')))"
  by (auto simp: build_tag_def Tag_slots_def)

lemma build_reference_missing_key:
  "k_title rd = None \<or> k_author rd = None \<or> k_tags rd = None \<Longrightarrow>
   build_reference tm rd =
     Inl (TORIParseError (''Reference dict missing required key: ''
            @ (if k_title rd = None then ''title''
               else if k_author rd = None then ''author'' else ''tags'')))"
  by (auto simp: build_reference_def Reference_required_slots_def)

subsection \<open>The example mappings\<close>

lemma top_level_lists_mapping_without_url:
  "top_level_lists mapping_without_url = Inr ([group_dict], [tag_dict_t], [reference_dict_without_url])"
  by (simp add: top_level_lists_def mapping_without_url_def key_map_def lower_def lower_char_def
      top_level_item_def)

lemma top_level_lists_mapping_no_groups:
  "top_level_lists mapping_no_groups = Inr ([], [tag_dict_t\<lparr>k_group := Some ''Default''\<rparr>], [])"
  by (simp add: top_level_lists_def mapping_no_groups_def key_map_def lower_def lower_char_def
      top_level_item_def)

lemma top_level_lists_mapping_undefined_group:
  "top_level_lists mapping_undefined_group = Inr ([group_dict], [tag_dict_t, tag_dict_nope], [])"
  by (simp add: top_level_lists_def mapping_undefined_group_def key_map_def lower_def
      lower_char_def top_level_item_def)

lemma top_level_lists_mapping_undefined_tag:
  "top_level_lists mapping_undefined_tag = Inr ([group_dict], [tag_dict_t], [reference_dict_missing_tag])"
  by (simp add: top_level_lists_def mapping_undefined_tag_def key_map_def lower_def
      lower_char_def top_level_item_def)

lemma top_level_lists_mapping_incomplete_tag_first:
  "top_level_lists mapping_incomplete_tag_first = Inr ([], [tag_dict_no_group, tag_dict_nope], [])"
  by (simp add: top_level_lists_def mapping_incomplete_tag_first_def key_map_def lower_def
      lower_char_def top_level_item_def)

lemma build_group_dict:
  "build_tag_groups [DEFAULT_TAG_GROUP] [group_dict] = Inr [DEFAULT_TAG_GROUP, TagGroup_init ''g'' ''a group'']"
  by (simp add: build_tag_group_def group_dict_def no_keys_def TagGroup_slots_def)

lemma build_tag_dict_t:
  "build_tags (tag_group_map [DEFAULT_TAG_GROUP, TagGroup_init ''g'' ''a group'']) [] [tag_dict_t]
     = Inr [Tag_init ''t'' ''a tag'' (Some (TagGroup_init ''g'' ''a group''))]"
  by (simp add: build_tag_def tag_dict_t_def no_keys_def Tag_slots_def tag_group_map_def
      TagGroup_init_def DEFAULT_TAG_GROUP_def)

lemma tag_map_t:
  "tag_map [Tag_init ''t'' ''a tag'' (Some (TagGroup_init ''g'' ''a group''))] x
     = (if x = ''t'' then Some (Tag_init ''t'' ''a tag'' (Some (TagGroup_init ''g'' ''a group''))) else None)"
  by (simp add: tag_map_def Tag_init_def)

lemma tag_group_map_g:
  "tag_group_map [DEFAULT_TAG_GROUP, TagGroup_init ''g'' ''a group''] x
     = (if x = ''g'' then Some (TagGroup_init ''g'' ''a group'')
        else if x = ''Default'' then Some DEFAULT_TAG_GROUP else None)"
  by (simp add: tag_group_map_def DEFAULT_TAG_GROUP_def)

lemma load_dict_mapping_no_groups:
  "load_dict mapping_no_groups =
     Inr (TORI_init [DEFAULT_TAG_GROUP] [Tag_init ''t'' ''a tag'' (Some DEFAULT_TAG_GROUP)] [])"
  by (simp add: load_dict_def top_level_lists_mapping_no_groups build_tag_def tag_dict_t_def
      no_keys_def Tag_slots_def tag_group_map_def DEFAULT_TAG_GROUP_def TagGroup_init_def)

section \<open>Claims about the loader\<close>

text \<open>
  C2 says that \<^verbatim>\<open>load_dict\<close> builds a reference that has the required keys \<open>title\<close>,
  \<open>author\<close> and \<open>tags\<close>, with every tag resolvable, also when the key \<open>url\<close> is absent. The
  code checks the required slots only, but then reads every slot of \<^verbatim>\<open>__slots__\<close>, \<open>url\<close>
  included: at the first such reference the subscript raises \<open>KeyError\<close>, and no catalog
  is returned.
\<close>

theorem load_dict_missing_url:
  assumes "top_level_lists tori_dict = Inr (tgds, tds, rds)"
    and "build_tag_groups [DEFAULT_TAG_GROUP] tgds = Inr tgs"
    and "build_tags (tag_group_map tgs) [] tds = Inr ts"
    and "rds = pre @ rd # post"
    and "build_references (tag_map ts) [] pre = Inr rs"
    and "k_title rd = Some title" and "k_author rd = Some a" and "k_tags rd = Some raw"
    and "\<forall>x \<in> set raw. tag_map ts x \<noteq> None"
    and "k_url rd = None"
  shows "load_dict tori_dict = Inl (KeyError ''url'')"
proof -
  have "build_reference (tag_map ts) rd = Inl (KeyError ''url'')"
    using assms(6-10) by (rule build_reference_missing_url)
  then have "build_references (tag_map ts) [] rds = Inl (KeyError ''url'')"
    using assms(4,5) by (simp add: build_references_append)
  then show ?thesis using assms(1-3) by (simp add: load_dict_def)
qed

text \<open>An instance: one tag group, one tag, one complete reference without \<open>url\<close>.\<close>

theorem load_dict_missing_url_witness:
  "top_level_lists mapping_without_url = Inr ([group_dict], [tag_dict_t], [reference_dict_without_url])
   \<and> k_title reference_dict_without_url = Some ''Book''
   \<and> k_author reference_dict_without_url = Some (AuthorStr ''A'')
   \<and> k_tags reference_dict_without_url = Some [''t'']
   \<and> k_url reference_dict_without_url = None
   \<and> load_dict mapping_without_url = Inl (KeyError ''url'')"
proof -
  have r: "k_title reference_dict_without_url = Some ''Book''"
    "k_author reference_dict_without_url = Some (AuthorStr ''A'')"
    "k_tags reference_dict_without_url = Some [''t'']"
    "k_url reference_dict_without_url = None"
    by (simp_all add: reference_dict_without_url_def no_keys_def)
  have "load_dict mapping_without_url = Inl (KeyError ''url'')"
    by (rule load_dict_missing_url [OF top_level_lists_mapping_without_url build_group_dict
          build_tag_dict_t _ _ r(1-3) _ r(4), of "[]" "[]" "[]"])
      (simp_all add: tag_map_t)
  then show ?thesis using top_level_lists_mapping_without_url r by simp
qed

text \<open>
  C8. Every catalog returned by \<^verbatim>\<open>load_dict\<close> has the default tag group, named
  \<open>Default\<close>, as the first of its tag groups; when the input's list of tag groups is
  empty it is the only one.
\<close>

theorem load_dict_default_group_first:
  "load_dict tori_dict = Inr tori \<Longrightarrow>
   (\<exists>rest. tag_groups tori = DEFAULT_TAG_GROUP # rest)
   \<and> tg_name (hd (tag_groups tori)) = ''Default''
   \<and> (\<forall>tds rds. top_level_lists tori_dict = Inr ([], tds, rds)
          \<longrightarrow> tag_groups tori = [DEFAULT_TAG_GROUP])"
proof -
  assume l: "load_dict tori_dict = Inr tori"
  then obtain tgds tds rds tgs ts rs where
    t: "top_level_lists tori_dict = Inr (tgds, tds, rds)"
    and g: "build_tag_groups [DEFAULT_TAG_GROUP] tgds = Inr tgs"
    and c: "tori = TORI_init tgs ts rs"
    by (auto simp: load_dict_def split: sum.splits)
  obtain rest where r: "tgs = [DEFAULT_TAG_GROUP] @ rest" "length rest = length tgds"
    using build_tag_groups_prefix [OF g] by blast
  have tg: "tag_groups tori = DEFAULT_TAG_GROUP # rest"
    using c r by (simp add: TORI_init_def set_keys_def)
  have "tg_name (hd (tag_groups tori)) = ''Default''"
    using tg by (simp add: DEFAULT_TAG_GROUP_def TagGroup_init_def)
  moreover have "\<forall>tds rds. top_level_lists tori_dict = Inr ([], tds, rds)
          \<longrightarrow> tag_groups tori = [DEFAULT_TAG_GROUP]"
    using t tg r(2) by auto
  ultimately show ?thesis using tg by blast
qed

text \<open>An instance: a mapping with an empty list of tag groups and a tag in the default group.\<close>

theorem load_dict_default_group_first_witness:
  "load_dict mapping_no_groups =
     Inr (TORI_init [DEFAULT_TAG_GROUP] [Tag_init ''t'' ''a tag'' (Some DEFAULT_TAG_GROUP)] [])
   \<and> top_level_lists mapping_no_groups = Inr ([], [tag_dict_t\<lparr>k_group := Some ''Default''\<rparr>], [])
   \<and> tag_groups (TORI_init [DEFAULT_TAG_GROUP] [Tag_init ''t'' ''a tag'' (Some DEFAULT_TAG_GROUP)] [])
       = [DEFAULT_TAG_GROUP]
   \<and> tg_name (hd (tag_groups
         (TORI_init [DEFAULT_TAG_GROUP] [Tag_init ''t'' ''a tag'' (Some DEFAULT_TAG_GROUP)] [])))
       = ''Default''"
  using load_dict_default_group_first [OF load_dict_mapping_no_groups]
    load_dict_mapping_no_groups top_level_lists_mapping_no_groups
  by simp

text \<open>
  C6, as stated: on every input, a tag whose group does not resolve makes \<^verbatim>\<open>load_dict\<close>
  fail with the error that names the tag and the group. Here the tag groups are built,
  the second tag is complete and its group \<open>nope\<close> is undefined, but the first tag has no
  key \<open>group\<close>: the loader stops there, with the error of the missing key.
\<close>

theorem load_dict_structural_error_first_counterexample:
  "top_level_lists mapping_incomplete_tag_first = Inr ([], [tag_dict_no_group, tag_dict_nope], [])
   \<and> build_tag_groups [DEFAULT_TAG_GROUP] [] = Inr [DEFAULT_TAG_GROUP]
   \<and> k_name tag_dict_nope = Some ''b''
   \<and> k_group tag_dict_nope = Some ''nope''
   \<and> tag_group_map [DEFAULT_TAG_GROUP] ''nope'' = None
   \<and> load_dict mapping_incomplete_tag_first = Inl (TORIParseError ''Tag dict missing key: group'')"
  by (simp add: load_dict_def top_level_lists_mapping_incomplete_tag_first build_tag_def
      tag_dict_no_group_def tag_dict_nope_def no_keys_def Tag_slots_def tag_group_map_def
      DEFAULT_TAG_GROUP_def)

text \<open>
  C6, amended. Let the top-level checks pass and the tag groups be built. If the tags
  before some tag are built, and that tag has its three keys and a group that is not in
  the tag-group index, \<^verbatim>\<open>load_dict\<close> fails with \<open>Tag <name> has undefined group <group>\<close>.
  If all tags are built, the references before some reference are built, and that
  reference has its required keys and lists a first tag that is not among the built
  tags, \<^verbatim>\<open>load_dict\<close> fails with \<open>Reference <title> has undefined tag <tag>\<close>, whether
  or not it has a \<open>url\<close>. And whenever any tag's group, or (the tags being built) any
  reference's tag, does not resolve, no catalog is returned.

  What is raised before these errors: the error of an earlier tag (of any tag, for a
  reference) or of an earlier reference; and, for the entry itself, the error of its
  first missing key among \<open>name\<close>, \<open>description\<close>, \<open>group\<close> for a tag and among \<open>title\<close>,
  \<open>author\<close>, \<open>tags\<close> for a reference.
\<close>

theorem load_dict_referential_errors:
  assumes "top_level_lists tori_dict = Inr (tgds, tds, rds)"
    and "build_tag_groups [DEFAULT_TAG_GROUP] tgds = Inr tgs"
  shows
   "(\<forall>pre td post ts n de g.
        tds = pre @ td # post \<and> build_tags (tag_group_map tgs) [] pre = Inr ts
        \<and> k_name td = Some n \<and> k_description td = Some de \<and> k_group td = Some g
        \<and> tag_group_map tgs g = None
        \<longrightarrow> load_dict tori_dict
              = Inl (TORIParseError (''Tag '' @ n @ '' has undefined group '' @ g)))
    \<and> (\<forall>ts pre rd post rs title a tpre x tpost.
        build_tags (tag_group_map tgs) [] tds = Inr ts
        \<and> rds = pre @ rd # post \<and> build_references (tag_map ts) [] pre = Inr rs
        \<and> k_title rd = Some title \<and> k_author rd = Some a \<and> k_tags rd = Some (tpre @ x # tpost)
        \<and> (\<forall>y \<in> set tpre. tag_map ts y \<noteq> None) \<and> tag_map ts x = None
        \<longrightarrow> load_dict tori_dict
              = Inl (TORIParseError (''Reference '' @ title @ '' has undefined tag '' @ x)))
    \<and> ((\<exists>td \<in> set tds. \<exists>g. k_group td = Some g \<and> tag_group_map tgs g = None)
        \<longrightarrow> (\<exists>e. load_dict tori_dict = Inl e))
    \<and> (\<forall>ts. build_tags (tag_group_map tgs) [] tds = Inr ts
        \<and> (\<exists>rd \<in> set rds. \<exists>raw x. k_tags rd = Some raw \<and> x \<in> set raw \<and> tag_map ts x = None)
        \<longrightarrow> (\<exists>e. load_dict tori_dict = Inl e))
    \<and> (\<forall>pre post e.
        tds = pre @ post \<and> build_tags (tag_group_map tgs) [] pre = Inl e
        \<longrightarrow> load_dict tori_dict = Inl e)
    \<and> (\<forall>pre td post ts.
        tds = pre @ td # post \<and> build_tags (tag_group_map tgs) [] pre = Inr ts
        \<and> (k_name td = None \<or> k_description td = None \<or> k_group td = None)
        \<longrightarrow> load_dict tori_dict
              = Inl (TORIParseError (''Tag dict missing key: ''
                  @ (if k_name td = None then ''name''
                     else if k_description td = None then ''description'' else ''group''))))
    \<and> (\<forall>ts pre post e.
        build_tags (tag_group_map tgs) [] tds = Inr ts
        \<and> rds = pre @ post \<and> build_references (tag_map ts) [] pre = Inl e
        \<longrightarrow> load_dict tori_dict = Inl e)
    \<and> (\<forall>ts pre rd post rs.
        build_tags (tag_group_map tgs) [] tds = Inr ts
        \<and> rds = pre @ rd # post \<and> build_references (tag_map ts) [] pre = Inr rs
        \<and> (k_title rd = None \<or> k_author rd = None \<or> k_tags rd = None)
        \<longrightarrow> load_dict tori_dict
              = Inl (TORIParseError (''Reference dict missing required key: ''
                  @ (if k_title rd = None then ''title''
                     else if k_author rd = None then ''author'' else ''tags''))))"
proof (intro conjI allI impI)
  fix pre td post ts n de g
  assume h: "tds = pre @ td # post \<and> build_tags (tag_group_map tgs) [] pre = Inr ts
        \<and> k_name td = Some n \<and> k_description td = Some de \<and> k_group td = Some g
        \<and> tag_group_map tgs g = None"
  then have "build_tag (tag_group_map tgs) td
      = Inl (TORIParseError (''Tag '' @ n @ '' has undefined group '' @ g))"
    by (simp add: build_tag_undefined_group)
  then have "build_tags (tag_group_map tgs) [] tds
      = Inl (TORIParseError (''Tag '' @ n @ '' has undefined group '' @ g))"
    using h by (simp add: build_tags_append)
  then show "load_dict tori_dict
      = Inl (TORIParseError (''Tag '' @ n @ '' has undefined group '' @ g))"
    using assms by (simp add: load_dict_def)
next
  fix ts pre rd post rs title a tpre x tpost
  assume h: "build_tags (tag_group_map tgs) [] tds = Inr ts
        \<and> rds = pre @ rd # post \<and> build_references (tag_map ts) [] pre = Inr rs
        \<and> k_title rd = Some title \<and> k_author rd = Some a \<and> k_tags rd = Some (tpre @ x # tpost)
        \<and> (\<forall>y \<in> set tpre. tag_map ts y \<noteq> None) \<and> tag_map ts x = None"
  then have "build_reference (tag_map ts) rd
      = Inl (TORIParseError (''Reference '' @ title @ '' has undefined tag '' @ x))"
    using build_reference_undefined_tag [of rd title a tpre x tpost "tag_map ts"] by blast
  then have "build_references (tag_map ts) [] rds
      = Inl (TORIParseError (''Reference '' @ title @ '' has undefined tag '' @ x))"
    using h by (simp add: build_references_append)
  then show "load_dict tori_dict
      = Inl (TORIParseError (''Reference '' @ title @ '' has undefined tag '' @ x))"
    using assms h by (simp add: load_dict_def)
next
  assume "\<exists>td \<in> set tds. \<exists>g. k_group td = Some g \<and> tag_group_map tgs g = None"
  then obtain td g where h: "td \<in> set tds" "k_group td = Some g" "tag_group_map tgs g = None"
    by blast
  have "\<exists>e. build_tags (tag_group_map tgs) [] tds = Inl e"
  proof (cases "build_tags (tag_group_map tgs) [] tds")
    case (Inl e)
    then show ?thesis by blast
  next
    case (Inr ts)
    from build_tags_all [OF Inr h(1)] obtain t where "build_tag (tag_group_map tgs) td = Inr t"
      by blast
    from build_tag_group_defined [OF this h(2)] h(3) show ?thesis by simp
  qed
  then show "\<exists>e. load_dict tori_dict = Inl e"
    using assms by (auto simp: load_dict_def)
next
  fix ts
  assume h: "build_tags (tag_group_map tgs) [] tds = Inr ts
        \<and> (\<exists>rd \<in> set rds. \<exists>raw x. k_tags rd = Some raw \<and> x \<in> set raw \<and> tag_map ts x = None)"
  then obtain rd raw x where r: "rd \<in> set rds" "k_tags rd = Some raw" "x \<in> set raw"
    "tag_map ts x = None"
    by blast
  have "\<exists>e. build_references (tag_map ts) [] rds = Inl e"
  proof (cases "build_references (tag_map ts) [] rds")
    case (Inl e)
    then show ?thesis by blast
  next
    case (Inr rs)
    from build_references_all [OF Inr r(1)] obtain ref where
      "build_reference (tag_map ts) rd = Inr ref"
      by blast
    from build_reference_tags_defined [OF this r(2,3)] r(4) show ?thesis by simp
  qed
  then show "\<exists>e. load_dict tori_dict = Inl e"
    using assms h by (auto simp: load_dict_def)
next
  fix pre post e
  assume h: "tds = pre @ post \<and> build_tags (tag_group_map tgs) [] pre = Inl e"
  then have "build_tags (tag_group_map tgs) [] tds = Inl e"
    by (simp add: build_tags_append)
  then show "load_dict tori_dict = Inl e"
    using assms by (simp add: load_dict_def)
next
  fix pre td post ts
  assume h: "tds = pre @ td # post \<and> build_tags (tag_group_map tgs) [] pre = Inr ts
        \<and> (k_name td = None \<or> k_description td = None \<or> k_group td = None)"
  then have "build_tag (tag_group_map tgs) td
      = Inl (TORIParseError (''Tag dict missing key: ''
                  @ (if k_name td = None then ''name''
                     else if k_description td = None then ''description'' else ''group'')))"
    using build_tag_missing_key [of td "tag_group_map tgs"] by blast
  then have "build_tags (tag_group_map tgs) [] tds
      = Inl (TORIParseError (''Tag dict missing key: ''
                  @ (if k_name td = None then ''name''
                     else if k_description td = None then ''description'' else ''group'')))"
    using h by (simp add: build_tags_append)
  then show "load_dict tori_dict
      = Inl (TORIParseError (''Tag dict missing key: ''
                  @ (if k_name td = None then ''name''
                     else if k_description td = None then ''description'' else ''group'')))"
    using assms by (simp add: load_dict_def)
next
  fix ts pre post e
  assume h: "build_tags (tag_group_map tgs) [] tds = Inr ts
        \<and> rds = pre @ post \<and> build_references (tag_map ts) [] pre = Inl e"
  then have "build_references (tag_map ts) [] rds = Inl e"
    by (simp add: build_references_append)
  then show "load_dict tori_dict = Inl e"
    using assms h by (simp add: load_dict_def)
next
  fix ts pre rd post rs
  assume h: "build_tags (tag_group_map tgs) [] tds = Inr ts
        \<and> rds = pre @ rd # post \<and> build_references (tag_map ts) [] pre = Inr rs
        \<and> (k_title rd = None \<or> k_author rd = None \<or> k_tags rd = None)"
  then have "build_reference (tag_map ts) rd
      = Inl (TORIParseError (''Reference dict missing required key: ''
                  @ (if k_title rd = None then ''title''
                     else if k_author rd = None then ''author'' else ''tags'')))"
    using build_reference_missing_key [of rd "tag_map ts"] by blast
  then have "build_references (tag_map ts) [] rds
      = Inl (TORIParseError (''Reference dict missing required key: ''
                  @ (if k_title rd = None then ''title''
                     else if k_author rd = None then ''author'' else ''tags'')))"
    using h by (simp add: build_references_append)
  then show "load_dict tori_dict
      = Inl (TORIParseError (''Reference dict missing required key: ''
                  @ (if k_title rd = None then ''title''
                     else if k_author rd = None then ''author'' else ''tags'')))"
    using assms h by (simp add: load_dict_def)
qed

text \<open>
  An instance: a tag in the undefined group \<open>nope\<close>; a reference with the undefined tag
  \<open>missing\<close>; and a tag without the key \<open>group\<close> before a tag in an undefined group.
\<close>

theorem load_dict_referential_errors_witness:
  "top_level_lists mapping_undefined_group = Inr ([group_dict], [tag_dict_t, tag_dict_nope], [])
   \<and> k_group tag_dict_nope = Some ''nope''
   \<and> load_dict mapping_undefined_group = Inl (TORIParseError ''Tag b has undefined group nope'')
   \<and> top_level_lists mapping_undefined_tag = Inr ([group_dict], [tag_dict_t], [reference_dict_missing_tag])
   \<and> k_tags reference_dict_missing_tag = Some [''t'', ''missing'']
   \<and> load_dict mapping_undefined_tag
       = Inl (TORIParseError ''Reference Book has undefined tag missing'')
   \<and> top_level_lists mapping_incomplete_tag_first
       = Inr ([], [tag_dict_no_group, tag_dict_nope], [])
   \<and> k_group tag_dict_no_group = None
   \<and> load_dict mapping_incomplete_tag_first
       = Inl (TORIParseError ''Tag dict missing key: group'')"
proof -
  have n: "k_name tag_dict_nope = Some ''b''" "k_description tag_dict_nope = Some ''another tag''"
    "k_group tag_dict_nope = Some ''nope''"
    by (simp_all add: tag_dict_nope_def no_keys_def)
  have r: "k_title reference_dict_missing_tag = Some ''Book''"
    "k_author reference_dict_missing_tag = Some (AuthorStr ''A'')"
    "k_tags reference_dict_missing_tag = Some ([''t''] @ ''missing'' # [])"
    by (simp_all add: reference_dict_missing_tag_def no_keys_def)
  have "load_dict mapping_undefined_group
      = Inl (TORIParseError (''Tag '' @ ''b'' @ '' has undefined group '' @ ''nope''))"
    using load_dict_referential_errors [OF top_level_lists_mapping_undefined_group build_group_dict,
        THEN conjunct1, rule_format, of "[tag_dict_t]" tag_dict_nope "[]" _ "''b''" _ "''nope''"]
      build_tag_dict_t n
    by (simp add: tag_group_map_g)
  moreover have "load_dict mapping_undefined_tag
      = Inl (TORIParseError (''Reference '' @ ''Book'' @ '' has undefined tag '' @ ''missing''))"
    using load_dict_referential_errors [OF top_level_lists_mapping_undefined_tag build_group_dict,
        THEN conjunct2, THEN conjunct1, rule_format,
        of _ "[]" reference_dict_missing_tag "[]" "[]" "''Book''" _ "[''t'']" "''missing''" "[]"]
      build_tag_dict_t r
    by (simp add: tag_map_t)
  moreover have g: "k_name tag_dict_no_group = Some ''a''"
    "k_description tag_dict_no_group = Some ''a tag''" "k_group tag_dict_no_group = None"
    by (simp_all add: tag_dict_no_group_def no_keys_def)
  moreover have "load_dict mapping_incomplete_tag_first
      = Inl (TORIParseError (''Tag dict missing key: '' @ ''group''))"
    using load_dict_referential_errors [OF top_level_lists_mapping_incomplete_tag_first
        build_tag_groups.simps(1), THEN conjunct2, THEN conjunct2, THEN conjunct2,
        THEN conjunct2, THEN conjunct2, THEN conjunct1, rule_format,
        of "[]" tag_dict_no_group "[tag_dict_nope]" "[]"] g
    by simp
  ultimately show ?thesis
    using top_level_lists_mapping_undefined_group top_level_lists_mapping_undefined_tag
      top_level_lists_mapping_incomplete_tag_first n r
    by simp
qed

end
